theory Spec2Isabelle
  imports Main
begin

section \<open>Python values and exceptions\<close>

text \<open>
  The program works on untyped values: decoded JSON bodies (\<^verbatim>\<open>response.json()\<close>) and
  the value that \<^verbatim>\<open>eval\<close> builds from the classifier's reply. Both are modelled by
  one datatype. A dict is an association list in insertion order; the first binding of a
  key is the one in force. Non-integer JSON numbers are outside the model.
\<close>

datatype json =
    JNull
  | JBool bool
  | JInt int
  | JStr string
  | JList "json list"
  | JObj "(string \<times> json) list"

text \<open>
  The exception classes the program raises, catches or can receive from \<^verbatim>\<open>requests\<close>,
  from the chat client and from \<^verbatim>\<open>eval\<close>, with Python's class hierarchy.
  \<open>ReqConnectionError\<close> is \<^verbatim>\<open>requests.exceptions.ConnectionError\<close>.
\<close>

datatype pyclass =
    BaseException | Exception | SystemExit | KeyboardInterrupt
  | KeyError | TypeError | ValueError | OverflowError | StopIteration
  | UnboundLocalError | SyntaxError | NameError | OSError
  | RequestException | Timeout | ConnectTimeout | ReadTimeout
  | ReqConnectionError | HTTPError | JSONDecodeError
  | OpenAIError

fun mro :: "pyclass \<Rightarrow> pyclass list" where
  "mro BaseException = [BaseException]"
| "mro Exception = [Exception, BaseException]"
| "mro SystemExit = [SystemExit, BaseException]"
| "mro KeyboardInterrupt = [KeyboardInterrupt, BaseException]"
| "mro UnboundLocalError = [UnboundLocalError, NameError, Exception, BaseException]"
| "mro RequestException = [RequestException, OSError, Exception, BaseException]"
| "mro Timeout = [Timeout, RequestException, OSError, Exception, BaseException]"
| "mro ConnectTimeout =
     [ConnectTimeout, ReqConnectionError, Timeout, RequestException, OSError, Exception,
      BaseException]"
| "mro ReadTimeout =
     [ReadTimeout, Timeout, RequestException, OSError, Exception, BaseException]"
| "mro ReqConnectionError =
     [ReqConnectionError, RequestException, OSError, Exception, BaseException]"
| "mro HTTPError = [HTTPError, RequestException, OSError, Exception, BaseException]"
| "mro JSONDecodeError =
     [JSONDecodeError, RequestException, OSError, ValueError, Exception, BaseException]"
| "mro c = [c, Exception, BaseException]"

datatype exn = Exn (exn_class: pyclass) (exn_str: string)

definition isinstance :: "exn \<Rightarrow> pyclass \<Rightarrow> bool" where
  "isinstance e c = (c \<in> set (mro (exn_class e)))"

type_synonym 'a result = "exn + 'a"

subsection \<open>The operations of Python the program uses\<close>

fun truthy :: "json \<Rightarrow> bool" where
  "truthy JNull = False"
| "truthy (JBool b) = b"
| "truthy (JInt i) = (i \<noteq> 0)"
| "truthy (JStr s) = (s \<noteq> [])"
| "truthy (JList xs) = (xs \<noteq> [])"
| "truthy (JObj kvs) = (kvs \<noteq> [])"

fun type_name :: "json \<Rightarrow> string" where
  "type_name JNull = ''NoneType''"
| "type_name (JBool _) = ''bool''"
| "type_name (JInt _) = ''int''"
| "type_name (JStr _) = ''str''"
| "type_name (JList _) = ''list''"
| "type_name (JObj _) = ''dict''"

definition quoted :: "string \<Rightarrow> string" where
  "quoted s = [CHR 0x27] @ s @ [CHR 0x27]"

text \<open>\<^verbatim>\<open>x[k]\<close> for a string key \<open>k\<close>. The wording of the messages is CPython 3.12's.\<close>

fun subscript :: "json \<Rightarrow> string \<Rightarrow> json result" where
  "subscript (JObj kvs) k =
     (case map_of kvs k of
        None \<Rightarrow> Inl (Exn KeyError (quoted k))
      | Some v \<Rightarrow> Inr v)"
| "subscript (JList _) k =
     Inl (Exn TypeError ''list indices must be integers or slices, not str'')"
| "subscript (JStr _) k =
     Inl (Exn TypeError (''string indices must be integers, not '' @ quoted ''str''))"
| "subscript x k =
     Inl (Exn TypeError (quoted (type_name x) @ '' object is not subscriptable''))"

text \<open>\<^verbatim>\<open>for x in v\<close>: the items a value yields. A string yields its characters.\<close>

fun py_iter :: "json \<Rightarrow> json list result" where
  "py_iter (JList xs) = Inr xs"
| "py_iter (JObj kvs) = Inr (map (\<lambda>kv. JStr (fst kv)) kvs)"
| "py_iter (JStr s) = Inr (map (\<lambda>c. JStr [c]) s)"
| "py_iter x =
     Inl (Exn TypeError (quoted (type_name x) @ '' object is not iterable''))"

text \<open>\<^verbatim>\<open>==\<close>: \<^verbatim>\<open>True == 1\<close> holds in Python, and dicts compare by content.\<close>

fun num_of :: "json \<Rightarrow> int option" where
  "num_of (JBool b) = Some (if b then 1 else 0)"
| "num_of (JInt i) = Some i"
| "num_of _ = None"

fun py_eq :: "json \<Rightarrow> json \<Rightarrow> bool" where
  "py_eq JNull y = (y = JNull)"
| "py_eq (JBool b) y = (num_of y = Some (if b then 1 else 0))"
| "py_eq (JInt i) y = (num_of y = Some i)"
| "py_eq (JStr s) y = (y = JStr s)"
| "py_eq (JList xs) (JList ys) = list_all2 py_eq xs ys"
| "py_eq (JList xs) y = False"
| "py_eq (JObj kvs) (JObj kws) =
     (list_all (\<lambda>kv. case map_of kws (fst kv) of
                         None \<Rightarrow> False
                       | Some w \<Rightarrow> py_eq (snd kv) w) kvs
      \<and> list_all (\<lambda>kw. map_of kvs (fst kw) \<noteq> None) kws)"
| "py_eq (JObj kvs) y = False"

text \<open>\<^verbatim>\<open>k in x\<close> for a string \<open>k\<close>: key of a dict, item of a list, substring of a string.\<close>

fun is_substring :: "string \<Rightarrow> string \<Rightarrow> bool" where
  "is_substring k [] = (k = [])"
| "is_substring k (c # s) = (take (length k) (c # s) = k \<or> is_substring k s)"

fun py_contains :: "string \<Rightarrow> json \<Rightarrow> bool result" where
  "py_contains k (JObj kvs) = Inr (map_of kvs k \<noteq> None)"
| "py_contains k (JList xs) = Inr (list_ex (\<lambda>x. py_eq x (JStr k)) xs)"
| "py_contains k (JStr s) = Inr (is_substring k s)"
| "py_contains k x =
     Inl (Exn TypeError (''argument of type '' @ quoted (type_name x) @ '' is not iterable''))"


text \<open>Sequencing of computations that may raise: the first exception aborts the rest.\<close>

fun bind :: "'a result \<Rightarrow> ('a \<Rightarrow> 'b result) \<Rightarrow> 'b result" where
  "bind (Inl e) f = Inl e"
| "bind (Inr v) f = f v"

subsection \<open>Decimal numerals\<close>

definition digit_char :: "nat \<Rightarrow> char" where
  "digit_char n = ''0123456789'' ! n"

function show_nat :: "nat \<Rightarrow> string" where
  "show_nat n = (if n < 10 then [digit_char n] else show_nat (n div 10) @ [digit_char (n mod 10)])"
  by pat_completeness auto
termination
  by (relation "measure (\<lambda>n. n)") auto

definition show_int :: "int \<Rightarrow> string" where
  "show_int i = (if i < 0 then CHR ''-'' # show_nat (nat (- i)) else show_nat (nat i))"

text \<open>\<^verbatim>\<open>%d\<close>, \<^verbatim>\<open>%I\<close> and \<^verbatim>\<open>%M\<close>: two digits, zero padded.\<close>

definition pad2 :: "nat \<Rightarrow> string" where
  "pad2 n = (if n < 10 then CHR ''0'' # show_nat n else show_nat n)"

section \<open>Calendar time\<close>

text \<open>
  \<^verbatim>\<open>datetime.fromtimestamp(t, tz=pytz.UTC).astimezone(tz).strftime(fmt)\<close> works in the
  proleptic Gregorian calendar. Days are counted from 0001-01-01 (day 0); the Unix epoch
  is day 719162.
\<close>

definition is_leap :: "int \<Rightarrow> bool" where
  "is_leap y = (y mod 4 = 0 \<and> (y mod 100 \<noteq> 0 \<or> y mod 400 = 0))"

definition days_in_year :: "int \<Rightarrow> nat" where
  "days_in_year y = (if is_leap y then 366 else 365)"

definition days_in_months :: "int \<Rightarrow> nat list" where
  "days_in_months y = [31, if is_leap y then 29 else 28, 31, 30, 31, 30, 31, 31, 30, 31, 30, 31]"

function find_year :: "int \<Rightarrow> nat \<Rightarrow> int \<times> nat" where
  "find_year y n = (if n < days_in_year y then (y, n) else find_year (y + 1) (n - days_in_year y))"
  by pat_completeness auto
termination
  by (relation "measure (\<lambda>(y, n). n)") (auto simp: days_in_year_def)

fun find_month :: "nat list \<Rightarrow> nat \<Rightarrow> nat \<Rightarrow> nat \<times> nat" where
  "find_month [] m n = (m, n)"
| "find_month (l # ls) m n = (if n < l then (m, n) else find_month ls (m + 1) (n - l))"

record civil =
  c_year :: int
  c_month :: nat
  c_day :: nat
  c_hour :: nat
  c_minute :: nat
  c_second :: nat

text \<open>The broken-down time of an instant given in seconds since the Unix epoch.\<close>

definition civil_of :: "int \<Rightarrow> civil" where
  "civil_of x =
     (let days = x div 86400 + 719162;
          sod = nat (x mod 86400);
          (y, doy) = find_year (1 + 400 * (days div 146097)) (nat (days mod 146097));
          (m, d) = find_month (days_in_months y) 1 doy
      in \<lparr>c_year = y, c_month = m, c_day = d + 1,
          c_hour = sod div 3600, c_minute = (sod mod 3600) div 60, c_second = sod mod 60\<rparr>)"

definition month_name :: "nat \<Rightarrow> string" where
  "month_name m =
     [''January'', ''February'', ''March'', ''April'', ''May'', ''June'', ''July'',
      ''August'', ''September'', ''October'', ''November'', ''December''] ! (m - 1)"

text \<open>
  \<^verbatim>\<open>strftime("%B %d, %Y %I:%M %p %Z")\<close> in the C locale, the abbreviation \<^verbatim>\<open>%Z\<close> given
  by the time zone. The year is printed without padding, as glibc does.
\<close>

definition strftime :: "civil \<Rightarrow> string \<Rightarrow> string" where
  "strftime c abbr =
     month_name (c_month c) @ '' '' @ pad2 (c_day c) @ '', '' @ show_int (c_year c) @ '' ''
     @ pad2 (if c_hour c mod 12 = 0 then 12 else c_hour c mod 12) @ '':'' @ pad2 (c_minute c)
     @ '' '' @ (if c_hour c < 12 then ''AM'' else ''PM'') @ '' '' @ abbr"

text \<open>The instants of 0001-01-01 00:00:00 and 9999-12-31 23:59:59, the range of \<^verbatim>\<open>datetime\<close>.\<close>

definition min_timestamp :: int where
  "min_timestamp = - 62135596800"

definition max_timestamp :: int where
  "max_timestamp = 253402300799"

text \<open>
  \<^verbatim>\<open>datetime.fromtimestamp(v, tz=pytz.UTC)\<close>: the value must be an integer (a bool is one)
  that fits the platform's 64-bit \<^verbatim>\<open>time_t\<close>, and the instant must lie in years 1 to
  9999. Where the year no longer fits a C int, the platform's \<^verbatim>\<open>gmtime\<close> may fail
  first, with an \<^verbatim>\<open>OSError\<close>; the model reports the year there too.
\<close>

definition fromtimestamp :: "json \<Rightarrow> int result" where
  "fromtimestamp v =
     (case num_of v of
        None \<Rightarrow>
          Inl (Exn TypeError (quoted (type_name v) @ '' object cannot be interpreted as an integer''))
      | Some t \<Rightarrow>
          if t < - (2 ^ 63) \<or> 2 ^ 63 \<le> t then
            Inl (Exn OverflowError ''timestamp out of range for platform time_t'')
          else if t < min_timestamp \<or> max_timestamp < t then
            Inl (Exn ValueError (''year '' @ show_int (c_year (civil_of t)) @ '' is out of range''))
          else Inr t)"

text \<open>
  \<^verbatim>\<open>.astimezone(pytz.timezone('America/New_York'))\<close>: the zone's table gives, for a
  UTC instant, the offset in seconds and the abbreviation in force. The table is data of
  \<^verbatim>\<open>pytz\<close> and is a parameter here. The local time must again lie in years 1 to 9999.
\<close>

type_synonym tzinfo = "int \<Rightarrow> int \<times> string"

definition astimezone :: "tzinfo \<Rightarrow> int \<Rightarrow> (int \<times> string) result" where
  "astimezone tz t =
     (let (off, abbr) = tz t
      in if t + off < min_timestamp \<or> max_timestamp < t + off
         then Inl (Exn OverflowError ''date value out of range'')
         else Inr (t + off, abbr))"

definition format_time :: "tzinfo \<Rightarrow> json \<Rightarrow> string result" where
  "format_time tz v =
     bind (fromtimestamp v) (\<lambda>t.
     bind (astimezone tz t) (\<lambda>(local, abbr).
     Inr (strftime (civil_of local) abbr)))"


section \<open>The world outside the program\<close>

text \<open>
  What the program cannot decide itself is a parameter: the answers of the network, of the
  chat model and of \<^verbatim>\<open>eval\<close>, Python's floating point (\<^verbatim>\<open>float(v)\<close>,
  \<^verbatim>\<open>10 ** x\<close> and \<^verbatim>\<open>*\<close> on a type \<open>'f\<close> of floats) and the zone table of
  \<^verbatim>\<open>America/New_York\<close>.
\<close>

record http_response =
  status_code :: nat
  reason :: string
  url :: string
  body :: "string + json"  \<comment> \<open>the decoded JSON body, or the decoder's complaint\<close>

datatype float_error = NotANumber | BadLiteral | TooLarge

record 'f env =
  base_url :: string  \<comment> \<open>\<^verbatim>\<open>HERMES_API_BASE_URL\<close> as an f-string prints it\<close>
  session_get :: "string \<Rightarrow> (string \<times> json) list \<Rightarrow> nat option \<Rightarrow> http_response result"
  chat_completion :: "string \<Rightarrow> string result"
  py_eval :: "string \<Rightarrow> json result"
  float_of :: "json \<Rightarrow> float_error + 'f"
  pow10 :: "'f \<Rightarrow> 'f option"
  fmul :: "'f \<Rightarrow> 'f \<Rightarrow> 'f"
  new_york :: tzinfo

text \<open>
  The effects of the program: the calls it makes and the records it hands to its logger
  through \<^verbatim>\<open>logger.info\<close>, \<^verbatim>\<open>logger.warning\<close> and \<^verbatim>\<open>logger.error\<close>. Which of them
  the handler configured by \<^verbatim>\<open>logging.basicConfig(level=logging.ERROR)\<close> prints is not
  part of the model.
\<close>

datatype call =
    HttpGet string "(string \<times> json) list" "nat option"  \<comment> \<open>URL, query parameters, timeout\<close>
  | ChatCompletion string
  | Eval string

datatype log_level = INFO | WARNING | ERROR

datatype log_msg =
    RequestTimedOut "json list"
  | ConnectionErrorFetching exn
  | HTTPErrorFetching nat exn
  | InvalidResponseFormat exn
  | UnexpectedErrorFetching exn
  | NoPriceFeedsFound json
  | ErrorFetchingPrices exn
  | ErrorProcessingMessage exn
  | MessageAnalysis json
  | ErrorHandlingMessage exn

record state =
  calls :: "call list"
  logged :: "(log_level \<times> log_msg) list"

definition do_call :: "call \<Rightarrow> state \<Rightarrow> state" where
  "do_call c st = st\<lparr>calls := calls st @ [c]\<rparr>"

definition logger :: "log_level \<Rightarrow> log_msg \<Rightarrow> state \<Rightarrow> state" where
  "logger lvl m st = st\<lparr>logged := logged st @ [(lvl, m)]\<rparr>"

section \<open>HermesClient\<close>

definition raise_for_status :: "http_response \<Rightarrow> unit result" where
  "raise_for_status r =
     (if 400 \<le> status_code r \<and> status_code r < 500 then
        Inl (Exn HTTPError (show_nat (status_code r) @ '' Client Error: '' @ reason r
                            @ '' for url: '' @ url r))
      else if 500 \<le> status_code r \<and> status_code r < 600 then
        Inl (Exn HTTPError (show_nat (status_code r) @ '' Server Error: '' @ reason r
                            @ '' for url: '' @ url r))
      else Inr ())"

definition response_json :: "http_response \<Rightarrow> json result" where
  "response_json r =
     (case body r of Inl complaint \<Rightarrow> Inl (Exn JSONDecodeError complaint) | Inr j \<Rightarrow> Inr j)"


fun is_dict :: "json \<Rightarrow> bool" where
  "is_dict (JObj _) = True"
| "is_dict _ = False"

text \<open>
  The body of the \<^verbatim>\<open>try\<close> in \<^verbatim>\<open>get_latest_prices\<close>; \<open>response\<close> is the local
  variable of that name, bound once \<^verbatim>\<open>session.get\<close> has returned.
\<close>

definition check_latest :: "http_response \<Rightarrow> json result" where
  "check_latest response =
     bind (raise_for_status response) (\<lambda>_.
     bind (response_json response) (\<lambda>data.
     if \<not> is_dict data \<or> py_contains ''parsed'' data \<noteq> Inr True
     then Inl (Exn ValueError ''Unexpected API response format'')
     else Inr data))"

definition unbound_response :: exn where
  "unbound_response =
     Exn UnboundLocalError
       (''cannot access local variable '' @ quoted ''response''
        @ '' where it is not associated with a value'')"

text \<open>The \<^verbatim>\<open>except\<close> clauses, in the order of the source; each logs and raises again.\<close>

definition latest_handler ::
  "json list \<Rightarrow> http_response option \<Rightarrow> exn \<Rightarrow> state \<Rightarrow> json result \<times> state" where
  "latest_handler feed_ids response e st =
     (if isinstance e Timeout then (Inl e, logger ERROR (RequestTimedOut feed_ids) st)
      else if isinstance e ReqConnectionError then
        (Inl e, logger ERROR (ConnectionErrorFetching e) st)
      else if isinstance e HTTPError then
        (case response of
           None \<Rightarrow> (Inl unbound_response, st)
         | Some r \<Rightarrow> (Inl e, logger ERROR (HTTPErrorFetching (status_code r) e) st))
      else if isinstance e ValueError then (Inl e, logger ERROR (InvalidResponseFormat e) st)
      else if isinstance e Exception then (Inl e, logger ERROR (UnexpectedErrorFetching e) st)
      else (Inl e, st))"

definition get_latest_prices :: "'f env \<Rightarrow> json list \<Rightarrow> state \<Rightarrow> json result \<times> state" where
  "get_latest_prices env feed_ids st =
     (let u = base_url env @ ''/v2/updates/price/latest'';
          query_params = map (\<lambda>fid. (''ids[]'', fid)) feed_ids;
          st1 = do_call (HttpGet u query_params (Some 30)) st
      in case session_get env u query_params (Some 30) of
           Inl e \<Rightarrow> latest_handler feed_ids None e st1
         | Inr response \<Rightarrow>
             (case check_latest response of
                Inl e \<Rightarrow> latest_handler feed_ids (Some response) e st1
              | Inr data \<Rightarrow> (Inr data, st1)))"

section \<open>PriceService\<close>

record PriceFeed =
  feed_id :: json
  feed_description :: json

record 'f PriceData =
  data_id :: json
  price :: 'f
  confidence_interval :: 'f
  description :: json
  time :: string

text \<open>
  The list comprehension of \<^verbatim>\<open>process_tickers\<close> for one ticker: the filter is evaluated
  on every item, the \<^verbatim>\<open>PriceFeed\<close> is built for the items that pass.
\<close>

definition base_matches :: "json \<Rightarrow> json \<Rightarrow> bool result" where
  "base_matches item ticker =
     bind (subscript item ''attributes'') (\<lambda>attrs.
     bind (py_contains ''base'' attrs) (\<lambda>has_base.
     if \<not> has_base then Inr False
     else bind (subscript item ''attributes'') (\<lambda>attrs'.
          bind (subscript attrs' ''base'') (\<lambda>b.
          Inr (py_eq b ticker)))))"

definition make_feed :: "json \<Rightarrow> PriceFeed result" where
  "make_feed item =
     bind (subscript item ''id'') (\<lambda>i.
     bind (subscript item ''attributes'') (\<lambda>attrs.
     bind (subscript attrs ''description'') (\<lambda>d.
     Inr \<lparr>feed_id = i, feed_description = d\<rparr>)))"

fun feeds_of :: "json \<Rightarrow> json list \<Rightarrow> PriceFeed list result" where
  "feeds_of ticker [] = Inr []"
| "feeds_of ticker (item # items) =
     bind (base_matches item ticker) (\<lambda>keep.
     if keep then bind (make_feed item) (\<lambda>f.
                  bind (feeds_of ticker items) (\<lambda>fs. Inr (f # fs)))
     else feeds_of ticker items)"

text \<open>The loop over the tickers; \<open>acc\<close> is the local list \<^verbatim>\<open>price_feeds\<close>.\<close>

fun tickers_loop :: "json \<Rightarrow> PriceFeed list \<Rightarrow> json list \<Rightarrow> PriceFeed list result" where
  "tickers_loop catalog acc [] = Inr acc"
| "tickers_loop catalog acc (ticker # tickers) =
     bind (py_iter catalog) (\<lambda>items.
     bind (feeds_of ticker items) (\<lambda>feeds.
     tickers_loop catalog (acc @ feeds) tickers))"

text \<open>\<open>catalog\<close> is \<^verbatim>\<open>self.price_feeds\<close>, the body \<^verbatim>\<open>get_price_feeds\<close> returned at start.\<close>

definition process_tickers :: "json \<Rightarrow> json \<Rightarrow> PriceFeed list result" where
  "process_tickers catalog tickers =
     (if \<not> truthy tickers then Inr []
      else bind (py_iter tickers) (tickers_loop catalog []))"


text \<open>\<^verbatim>\<open>float(v)\<close> and \<^verbatim>\<open>10 ** x\<close>, with the exceptions CPython raises.\<close>

definition py_float :: "'f env \<Rightarrow> json \<Rightarrow> 'f result" where
  "py_float env v =
     (case float_of env v of
        Inl NotANumber \<Rightarrow>
          Inl (Exn TypeError (''float() argument must be a string or a real number, not ''
                              @ quoted (type_name v)))
      | Inl BadLiteral \<Rightarrow>
          Inl (Exn ValueError (''could not convert string to float: ''
                               @ quoted (case v of JStr s \<Rightarrow> s | _ \<Rightarrow> [])))
      | Inl TooLarge \<Rightarrow> Inl (Exn OverflowError ''int too large to convert to float'')
      | Inr f \<Rightarrow> Inr f)"

definition py_pow10 :: "'f env \<Rightarrow> 'f \<Rightarrow> 'f result" where
  "py_pow10 env x =
     (case pow10 env x of
        None \<Rightarrow> Inl (Exn OverflowError (''(34, '' @ quoted ''Numerical result out of range'' @ '')''))
      | Some p \<Rightarrow> Inr p)"

text \<open>\<^verbatim>\<open>float(price["price"][k]) * 10 ** float(price["price"]["expo"])\<close>, left to right.\<close>

definition scaled :: "'f env \<Rightarrow> json \<Rightarrow> string \<Rightarrow> 'f result" where
  "scaled env price_item k =
     bind (subscript price_item ''price'') (\<lambda>pp.
     bind (subscript pp k) (\<lambda>m.
     bind (py_float env m) (\<lambda>fm.
     bind (subscript price_item ''price'') (\<lambda>pp'.
     bind (subscript pp' ''expo'') (\<lambda>x.
     bind (py_float env x) (\<lambda>fx.
     bind (py_pow10 env fx) (\<lambda>p.
     Inr (fmul env fm p))))))))"

text \<open>
  \<^verbatim>\<open>next(feed.description for feed in price_feeds if feed.id == price["id"])\<close>: the
  generator stops at its first item; an exhausted one makes \<^verbatim>\<open>next\<close> raise
  \<^verbatim>\<open>StopIteration\<close>.
\<close>

fun next_description :: "PriceFeed list \<Rightarrow> json \<Rightarrow> json result" where
  "next_description [] price_item = Inl (Exn StopIteration [])"
| "next_description (feed # feeds) price_item =
     bind (subscript price_item ''id'') (\<lambda>i.
     if py_eq (feed_id feed) i then Inr (feed_description feed)
     else next_description feeds price_item)"

text \<open>The call \<^verbatim>\<open>PriceData(...)\<close>: its keyword arguments are evaluated in order.\<close>

definition make_price_data :: "'f env \<Rightarrow> PriceFeed list \<Rightarrow> json \<Rightarrow> 'f PriceData result" where
  "make_price_data env price_feeds price_item =
     bind (subscript price_item ''id'') (\<lambda>i.
     bind (scaled env price_item ''price'') (\<lambda>p.
     bind (scaled env price_item ''conf'') (\<lambda>c.
     bind (next_description price_feeds price_item) (\<lambda>d.
     bind (subscript price_item ''price'') (\<lambda>pp.
     bind (subscript pp ''publish_time'') (\<lambda>t.
     bind (format_time (new_york env) t) (\<lambda>s.
     Inr \<lparr>data_id = i, price = p, confidence_interval = c, description = d, time = s\<rparr>)))))))"

fun price_records :: "'f env \<Rightarrow> PriceFeed list \<Rightarrow> json list \<Rightarrow> 'f PriceData list result" where
  "price_records env price_feeds [] = Inr []"
| "price_records env price_feeds (price_item # rest) =
     bind (make_price_data env price_feeds price_item) (\<lambda>r.
     bind (price_records env price_feeds rest) (\<lambda>rs.
     Inr (r # rs)))"

text \<open>The list comprehension over \<^verbatim>\<open>response_data["parsed"]\<close>.\<close>

definition normalize :: "'f env \<Rightarrow> json \<Rightarrow> PriceFeed list \<Rightarrow> 'f PriceData list result" where
  "normalize env response_data price_feeds =
     bind (subscript response_data ''parsed'') (\<lambda>parsed.
     bind (py_iter parsed) (price_records env price_feeds))"

text \<open>\<^verbatim>\<open>except requests.exceptions.RequestException\<close> of \<^verbatim>\<open>fetch_prices\<close>.\<close>

definition fetch_handler :: "exn \<Rightarrow> state \<Rightarrow> 'a result \<times> state" where
  "fetch_handler e st =
     (if isinstance e RequestException then (Inl e, logger ERROR (ErrorFetchingPrices e) st)
      else (Inl e, st))"

definition fetch_prices ::
  "'f env \<Rightarrow> json \<Rightarrow> json \<Rightarrow> state \<Rightarrow> 'f PriceData list result \<times> state" where
  "fetch_prices env catalog tickers st =
     (case process_tickers catalog tickers of
        Inl e \<Rightarrow> fetch_handler e st
      | Inr price_feeds \<Rightarrow>
          if price_feeds = [] then (Inr [], logger WARNING (NoPriceFeedsFound tickers) st)
          else
            (case get_latest_prices env (map feed_id price_feeds) st of
               (Inl e, st1) \<Rightarrow> fetch_handler e st1
             | (Inr response_data, st1) \<Rightarrow>
                 (case normalize env response_data price_feeds of
                    Inl e \<Rightarrow> fetch_handler e st1
                  | Inr records \<Rightarrow> (Inr records, st1))))"

text \<open>
  \<^verbatim>\<open>analyze_message\<close>: one chat completion, whose reply is handed to \<^verbatim>\<open>eval\<close>. The
  chat model sees the message inside a fixed prompt; it is a function of the message here.
\<close>

definition analyze_handler :: "exn \<Rightarrow> state \<Rightarrow> json result \<times> state" where
  "analyze_handler e st =
     (if isinstance e Exception then (Inl e, logger ERROR (ErrorProcessingMessage e) st)
      else (Inl e, st))"

definition analyze_message :: "'f env \<Rightarrow> string \<Rightarrow> state \<Rightarrow> json result \<times> state" where
  "analyze_message env message st =
     (let st1 = do_call (ChatCompletion message) st
      in case chat_completion env message of
           Inl e \<Rightarrow> analyze_handler e st1
         | Inr content \<Rightarrow>
             (let st2 = do_call (Eval content) st1
              in case py_eval env content of
                   Inl e \<Rightarrow> analyze_handler e st2
                 | Inr v \<Rightarrow> (Inr v, st2)))"

text \<open>What \<^verbatim>\<open>handle_message\<close> returns: a list of \<^verbatim>\<open>PriceData\<close> or another value.\<close>

datatype 'f answer = Records "'f PriceData list" | Val json

definition message_handler :: "exn \<Rightarrow> state \<Rightarrow> 'f answer result \<times> state" where
  "message_handler e st =
     (if isinstance e Exception
      then (Inr (Val (JStr (''An error occurred: '' @ exn_str e))),
            logger ERROR (ErrorHandlingMessage e) st)
      else (Inl e, st))"

definition handle_message ::
  "'f env \<Rightarrow> json \<Rightarrow> string \<Rightarrow> state \<Rightarrow> 'f answer result \<times> state" where
  "handle_message env catalog message st =
     (case analyze_message env message st of
        (Inl e, st1) \<Rightarrow> message_handler e st1
      | (Inr analysis, st1) \<Rightarrow>
          (let st2 = logger INFO (MessageAnalysis analysis) st1
           in case subscript analysis ''is_price_request'' of
                Inl e \<Rightarrow> message_handler e st2
              | Inr flag \<Rightarrow>
                  if truthy flag then
                    (case subscript analysis ''tickers'' of
                       Inl e \<Rightarrow> message_handler e st2
                     | Inr tickers \<Rightarrow>
                         (case fetch_prices env catalog tickers st2 of
                            (Inl e, st3) \<Rightarrow> message_handler e st3
                          | (Inr records, st3) \<Rightarrow> (Inr (Records records), st3)))
                  else
                    (case subscript analysis ''chat_response'' of
                       Inl e \<Rightarrow> message_handler e st2
                     | Inr r \<Rightarrow> (Inr (Val r), st2))))"

section \<open>The catalog as the specification sees it\<close>

text \<open>
  A catalog entry is a dict with an \<^verbatim>\<open>id\<close> and a dict of \<^verbatim>\<open>attributes\<close> holding
  a \<^verbatim>\<open>description\<close> and, optionally, a \<^verbatim>\<open>base\<close> symbol. The resolution the
  specification describes: per ticker, in input order, every descriptor whose base symbol
  is that ticker.
\<close>

definition is_entry :: "json \<Rightarrow> bool" where
  "is_entry item =
     (case item of
        JObj kvs \<Rightarrow>
          (case (map_of kvs ''id'', map_of kvs ''attributes'') of
             (Some i, Some (JObj attrs)) \<Rightarrow> map_of attrs ''description'' \<noteq> None
           | _ \<Rightarrow> False)
      | _ \<Rightarrow> False)"

definition base_symbol :: "json \<Rightarrow> json option" where
  "base_symbol item =
     (case subscript item ''attributes'' of
        Inr (JObj attrs) \<Rightarrow> map_of attrs ''base''
      | _ \<Rightarrow> None)"

definition descriptor :: "json \<Rightarrow> PriceFeed" where
  "descriptor item =
     (case make_feed item of Inr f \<Rightarrow> f | Inl _ \<Rightarrow> \<lparr>feed_id = JNull, feed_description = JNull\<rparr>)"

definition find_by_symbol :: "json list \<Rightarrow> string \<Rightarrow> PriceFeed list" where
  "find_by_symbol items symbol =
     map descriptor (filter (\<lambda>item. base_symbol item = Some (JStr symbol)) items)"

definition resolve :: "json list \<Rightarrow> string list \<Rightarrow> PriceFeed list" where
  "resolve items tickers = concat (map (find_by_symbol items) tickers)"


text \<open>A computation all of whose failures are instances of \<^verbatim>\<open>Exception\<close>.\<close>

definition only_exceptions :: "'a result \<Rightarrow> bool" where
  "only_exceptions r = (case r of Inl e \<Rightarrow> isinstance e Exception | Inr _ \<Rightarrow> True)"










text \<open>A raw price whose id no descriptor of the feed set carries.\<close>

definition unmatched :: "PriceFeed list \<Rightarrow> json \<Rightarrow> bool" where
  "unmatched feeds price_item =
     (case subscript price_item ''id'' of
        Inl _ \<Rightarrow> False
      | Inr i \<Rightarrow> \<not> list_ex (\<lambda>f. py_eq (feed_id f) i) feeds)"


section \<open>Sample data\<close>

definition demo_catalog :: "json list" where
  "demo_catalog =
     [JObj [(''id'', JStr ''a1''),
            (''attributes'', JObj [(''base'', JStr ''BTC''), (''description'', JStr ''BTC/USD'')])],
      JObj [(''id'', JStr ''e1''),
            (''attributes'', JObj [(''base'', JStr ''ETH''), (''description'', JStr ''ETH/USD'')])],
      JObj [(''id'', JStr ''x1''),
            (''attributes'', JObj [(''description'', JStr ''no base'')])],
      JObj [(''id'', JStr ''a2''),
            (''attributes'', JObj [(''base'', JStr ''BTC''), (''description'', JStr ''BTC/EUR'')])]]"


text \<open>
  A sample world for evaluating the model. Its floats are unevaluated expressions, and
  \<^verbatim>\<open>float\<close> accepts every number and every string: it is used on numerals only. Its
  zone table holds the two rows of \<^verbatim>\<open>America/New_York\<close> around 2024.
\<close>

datatype sym_float = FloatOf json | Pow10 sym_float | Times sym_float sym_float

definition demo_float_of :: "json \<Rightarrow> float_error + sym_float" where
  "demo_float_of v = (case num_of v of Some _ \<Rightarrow> Inr (FloatOf v)
      | None \<Rightarrow> (case v of JStr _ \<Rightarrow> Inr (FloatOf v) | _ \<Rightarrow> Inl NotANumber))"

definition demo_new_york :: tzinfo where
  "demo_new_york t =
     (if 1710054000 \<le> t \<and> t < 1730613600 then (- 14400, ''EDT'') else (- 18000, ''EST''))"

definition demo_env :: "sym_float env" where
  "demo_env =
     \<lparr>base_url = ''https://hermes.example'',
      session_get = (\<lambda>u q t. Inl (Exn ReqConnectionError ''unreachable'')),
      chat_completion = (\<lambda>m. Inl (Exn OpenAIError ''unreachable'')),
      py_eval = (\<lambda>s. Inl (Exn SyntaxError ''invalid syntax'')),
      float_of = demo_float_of,
      pow10 = (\<lambda>x. Some (Pow10 x)),
      fmul = Times,
      new_york = demo_new_york\<rparr>"

definition st0 :: state where
  "st0 = \<lparr>calls = [], logged = []\<rparr>"

definition demo_feeds :: "PriceFeed list" where
  "demo_feeds =
     [\<lparr>feed_id = JStr ''e1'', feed_description = JStr ''ETH/USD''\<rparr>,
      \<lparr>feed_id = JStr ''a1'', feed_description = JStr ''first''\<rparr>,
      \<lparr>feed_id = JStr ''a1'', feed_description = JStr ''second''\<rparr>]"

definition demo_price :: "string \<Rightarrow> int \<Rightarrow> json" where
  "demo_price i t =
     JObj [(''id'', JStr i),
           (''price'', JObj [(''price'', JStr ''12345''), (''conf'', JStr ''67''),
                             (''expo'', JInt (- 2)), (''publish_time'', JInt t)])]"


text \<open>
  Replies of the chat model, written as Python expressions, with the values \<^verbatim>\<open>eval\<close>
  gives them; and a world whose network times out.
\<close>

definition reply_btc :: string where
  "reply_btc = ''dict(is_price_request=True, tickers=['' @ quoted ''BTC'' @ ''], chat_response=str())''"

definition reply_odd :: string where
  "reply_odd = ''dict(is_price_request='' @ quoted ''no'' @ '', tickers=[])''"

definition demo_eval :: "string \<Rightarrow> json result" where
  "demo_eval s =
     (if s = reply_btc then
        Inr (JObj [(''is_price_request'', JBool True), (''tickers'', JList [JStr ''BTC'']),
                   (''chat_response'', JStr [])])
      else if s = reply_odd then
        Inr (JObj [(''is_price_request'', JStr ''no''), (''tickers'', JList [])])
      else Inl (Exn SyntaxError ''invalid syntax''))"




definition ok_response :: "json \<Rightarrow> http_response" where
  "ok_response j = \<lparr>status_code = 200, reason = ''OK'', url = ''https://hermes.example'', body = Inr j\<rparr>"





text \<open>
  Two answers of the latest-price service. In both the second price has an id that was
  not asked for; in the first one the first price gives its publish time in milliseconds.
\<close>

definition demo_response :: json where
  "demo_response =
     JObj [(''parsed'', JList [demo_price ''a1'' 1000000000000, demo_price ''zz'' 1700000000])]"

definition demo_response' :: json where
  "demo_response' =
     JObj [(''parsed'', JList [demo_price ''a1'' 1700000000, demo_price ''zz'' 1700000000])]"


text \<open>A world that serves one price for the second BTC feed.\<close>

definition serving_env :: "sym_float env" where
  "serving_env =
     demo_env\<lparr>session_get := \<lambda>u q t.
                 Inr (ok_response (JObj [(''parsed'', JList [demo_price ''a2'' 1700000000])])),
              chat_completion := \<lambda>m. Inr reply_btc,
              py_eval := demo_eval\<rparr>"


section \<open>The model on the sample data\<close>

lemma demo_time: "format_time demo_new_york (JInt 1700000000) = Inr ''November 14, 2023 05:13 PM EST''"
  by (simp add: format_time_def fromtimestamp_def astimezone_def min_timestamp_def
      max_timestamp_def demo_new_york_def civil_of_def strftime_def days_in_year_def is_leap_def
      days_in_months_def month_name_def pad2_def show_int_def digit_char_def)

lemma demo_record:
  "make_price_data demo_env demo_feeds (demo_price ''a1'' 1700000000) =
     Inr \<lparr>data_id = JStr ''a1'',
          price = Times (FloatOf (JStr ''12345'')) (Pow10 (FloatOf (JInt (- 2)))),
          confidence_interval = Times (FloatOf (JStr ''67'')) (Pow10 (FloatOf (JInt (- 2)))),
          description = JStr ''first'',
          time = ''November 14, 2023 05:13 PM EST''\<rparr>"
  by (simp add: make_price_data_def demo_price_def demo_feeds_def scaled_def py_float_def
      py_pow10_def demo_env_def demo_float_of_def demo_time)


lemma demo_btc_feeds:
  "process_tickers (JList demo_catalog) (JList [JStr ''BTC'']) =
     Inr [\<lparr>feed_id = JStr ''a1'', feed_description = JStr ''BTC/USD''\<rparr>,
          \<lparr>feed_id = JStr ''a2'', feed_description = JStr ''BTC/EUR''\<rparr>]"
  by (simp add: process_tickers_def demo_catalog_def base_matches_def make_feed_def)

lemma demo_time_ms:
  "format_time demo_new_york (JInt 1000000000000) = Inl (Exn ValueError ''year 33658 is out of range'')"
  by (simp add: format_time_def fromtimestamp_def min_timestamp_def
      max_timestamp_def civil_of_def days_in_year_def is_leap_def
      days_in_months_def show_int_def digit_char_def)

lemma demo_end_to_end:
  "handle_message serving_env (JList demo_catalog) ''BTC?'' st0 =
     (Inr (Records
        [\<lparr>data_id = JStr ''a2'',
          price = Times (FloatOf (JStr ''12345'')) (Pow10 (FloatOf (JInt (- 2)))),
          confidence_interval = Times (FloatOf (JStr ''67'')) (Pow10 (FloatOf (JInt (- 2)))),
          description = JStr ''BTC/EUR'',
          time = ''November 14, 2023 05:13 PM EST''\<rparr>]),
      \<lparr>calls = [ChatCompletion ''BTC?'', Eval reply_btc,
                HttpGet ''https://hermes.example/v2/updates/price/latest''
                  [(''ids[]'', JStr ''a1''), (''ids[]'', JStr ''a2'')] (Some 30)],
       logged = [(INFO, MessageAnalysis
                   (JObj [(''is_price_request'', JBool True), (''tickers'', JList [JStr ''BTC'']),
                          (''chat_response'', JStr [])]))]\<rparr>)"
proof -
  have an: "analyze_message serving_env ''BTC?'' st0 =
      (Inr (JObj [(''is_price_request'', JBool True), (''tickers'', JList [JStr ''BTC'']),
                  (''chat_response'', JStr [])]),
       \<lparr>calls = [ChatCompletion ''BTC?'', Eval reply_btc], logged = []\<rparr>)"
    by (simp add: analyze_message_def serving_env_def demo_eval_def do_call_def st0_def)
  have r: "make_price_data serving_env
      [\<lparr>feed_id = JStr ''a1'', feed_description = JStr ''BTC/USD''\<rparr>,
       \<lparr>feed_id = JStr ''a2'', feed_description = JStr ''BTC/EUR''\<rparr>]
      (demo_price ''a2'' 1700000000) =
     Inr \<lparr>data_id = JStr ''a2'',
          price = Times (FloatOf (JStr ''12345'')) (Pow10 (FloatOf (JInt (- 2)))),
          confidence_interval = Times (FloatOf (JStr ''67'')) (Pow10 (FloatOf (JInt (- 2)))),
          description = JStr ''BTC/EUR'',
          time = ''November 14, 2023 05:13 PM EST''\<rparr>"
    by (simp add: make_price_data_def demo_price_def scaled_def py_float_def py_pow10_def
        serving_env_def demo_env_def demo_float_of_def demo_time)
  have g: "get_latest_prices serving_env [JStr ''a1'', JStr ''a2''] s =
      (Inr (JObj [(''parsed'', JList [demo_price ''a2'' 1700000000])]),
       do_call (HttpGet ''https://hermes.example/v2/updates/price/latest''
                  [(''ids[]'', JStr ''a1''), (''ids[]'', JStr ''a2'')] (Some 30)) s)" for s
    by (simp add: get_latest_prices_def check_latest_def raise_for_status_def response_json_def
        ok_response_def serving_env_def demo_env_def)
  have f: "fetch_prices serving_env (JList demo_catalog) (JList [JStr ''BTC'']) s =
      (Inr [\<lparr>data_id = JStr ''a2'',
          price = Times (FloatOf (JStr ''12345'')) (Pow10 (FloatOf (JInt (- 2)))),
          confidence_interval = Times (FloatOf (JStr ''67'')) (Pow10 (FloatOf (JInt (- 2)))),
          description = JStr ''BTC/EUR'',
          time = ''November 14, 2023 05:13 PM EST''\<rparr>],
       do_call (HttpGet ''https://hermes.example/v2/updates/price/latest''
                  [(''ids[]'', JStr ''a1''), (''ids[]'', JStr ''a2'')] (Some 30)) s)" for s
    by (simp add: fetch_prices_def demo_btc_feeds g normalize_def r)
  show ?thesis
    by (simp add: handle_message_def an f do_call_def logger_def)
qed


section \<open>Ticker resolution\<close>

lemma py_eq_JStr: "py_eq b (JStr t) = (b = JStr t)"
  by (cases b) auto

lemma entry_cases:
  assumes "is_entry item"
  obtains kvs i attrs d where "item = JObj kvs" "map_of kvs ''id'' = Some i"
    "map_of kvs ''attributes'' = Some (JObj attrs)" "map_of attrs ''description'' = Some d"
  using assms unfolding is_entry_def
  by (auto split: json.splits option.splits)

lemma base_matches_entry:
  assumes "is_entry item"
  shows "base_matches item (JStr t) = Inr (base_symbol item = Some (JStr t))"
proof -
  from assms obtain kvs i attrs d where *: "item = JObj kvs" "map_of kvs ''id'' = Some i"
    "map_of kvs ''attributes'' = Some (JObj attrs)" "map_of attrs ''description'' = Some d"
    by (rule entry_cases)
  show ?thesis
    using * by (auto simp: base_matches_def base_symbol_def py_eq_JStr split: option.splits)
qed

lemma make_feed_entry:
  assumes "is_entry item"
  shows "make_feed item = Inr (descriptor item)"
proof -
  from assms obtain kvs i attrs d where *: "item = JObj kvs" "map_of kvs ''id'' = Some i"
    "map_of kvs ''attributes'' = Some (JObj attrs)" "map_of attrs ''description'' = Some d"
    by (rule entry_cases)
  show ?thesis
    using * by (simp add: make_feed_def descriptor_def)
qed

lemma feeds_of_entries:
  "list_all is_entry items \<Longrightarrow> feeds_of (JStr t) items = Inr (find_by_symbol items t)"
  by (induction items) (simp_all add: find_by_symbol_def base_matches_entry make_feed_entry)

lemma tickers_loop_entries:
  "list_all is_entry items \<Longrightarrow>
   tickers_loop (JList items) acc (map JStr ts) = Inr (acc @ resolve items ts)"
  by (induction ts arbitrary: acc) (simp_all add: resolve_def feeds_of_entries)

text \<open>
  Claim C5. On a catalog of well-formed entries, \<^verbatim>\<open>process_tickers\<close> returns, per ticker
  in input order, the descriptors of all entries whose base symbol is exactly that ticker:
  every match is appended, nothing is deduplicated, and an entry without a base symbol
  matches no ticker.
\<close>

theorem process_tickers_resolve:
  assumes "list_all is_entry items"
  shows "process_tickers (JList items) (JList (map JStr tickers)) = Inr (resolve items tickers)"
proof (cases tickers)
  case Nil
  then show ?thesis by (simp add: process_tickers_def resolve_def)
next
  case (Cons t ts)
  have "tickers_loop (JList items) [] (map JStr tickers) = Inr ([] @ resolve items tickers)"
    using assms by (rule tickers_loop_entries)
  with Cons show ?thesis by (simp add: process_tickers_def)
qed

theorem process_tickers_resolve_witness:
  "list_all is_entry demo_catalog \<and>
   process_tickers (JList demo_catalog) (JList (map JStr [''ETH'', ''btc'', ''BTC''])) =
     Inr [\<lparr>feed_id = JStr ''e1'', feed_description = JStr ''ETH/USD''\<rparr>,
          \<lparr>feed_id = JStr ''a1'', feed_description = JStr ''BTC/USD''\<rparr>,
          \<lparr>feed_id = JStr ''a2'', feed_description = JStr ''BTC/EUR''\<rparr>]"
proof -
  have wf: "list_all is_entry demo_catalog"
    by (simp add: demo_catalog_def is_entry_def)
  have "resolve demo_catalog [''ETH'', ''btc'', ''BTC''] =
     [\<lparr>feed_id = JStr ''e1'', feed_description = JStr ''ETH/USD''\<rparr>,
      \<lparr>feed_id = JStr ''a1'', feed_description = JStr ''BTC/USD''\<rparr>,
      \<lparr>feed_id = JStr ''a2'', feed_description = JStr ''BTC/EUR''\<rparr>]"
    by (simp add: resolve_def find_by_symbol_def demo_catalog_def base_symbol_def
        descriptor_def make_feed_def)
  with wf process_tickers_resolve [OF wf, of "[''ETH'', ''btc'', ''BTC'']"]
  show ?thesis by simp
qed


section \<open>Empty resolution\<close>

text \<open>
  Claim C8. The empty ticker list resolves to no feed, and whenever resolution yields no
  feed \<^verbatim>\<open>fetch_prices\<close> returns the empty list as its result, not an error: it hands
  one warning to the logger and makes no call.
\<close>

theorem fetch_prices_no_feeds:
  "process_tickers catalog (JList []) = Inr [] \<and>
   (process_tickers catalog tickers = Inr [] \<longrightarrow>
    fetch_prices env catalog tickers st =
      (Inr [], st\<lparr>logged := logged st @ [(WARNING, NoPriceFeedsFound tickers)]\<rparr>))"
  by (simp add: process_tickers_def fetch_prices_def logger_def)

theorem fetch_prices_no_feeds_witness:
  "process_tickers (JList demo_catalog) (JList [JStr ''DOGE'']) = Inr [] \<and>
   fetch_prices demo_env (JList demo_catalog) (JList [JStr ''DOGE'']) st0 =
     (Inr [], \<lparr>calls = [], logged = [(WARNING, NoPriceFeedsFound (JList [JStr ''DOGE'']))]\<rparr>)"
proof -
  have r: "process_tickers (JList demo_catalog) (JList [JStr ''DOGE'']) = Inr []"
    by (simp add: process_tickers_def demo_catalog_def base_matches_def)
  from fetch_prices_no_feeds [of "JList demo_catalog" "JList [JStr ''DOGE'']" demo_env st0] r
  show ?thesis by (simp add: st0_def)
qed


section \<open>Description lookup\<close>






section \<open>The latest-price request\<close>

text \<open>
  Claim C6. \<^verbatim>\<open>get_latest_prices\<close> makes exactly one request, with a timeout of 30
  seconds, whatever the outcome. When that request times out, the \<^verbatim>\<open>Timeout\<close> is
  logged and raised again: no data is returned and no second request is made.
\<close>

theorem get_latest_prices_timeout:
  "calls (snd (get_latest_prices env feed_ids st)) =
     calls st @ [HttpGet (base_url env @ ''/v2/updates/price/latest'')
                         (map (\<lambda>fid. (''ids[]'', fid)) feed_ids) (Some 30)] \<and>
   (\<forall>e. session_get env (base_url env @ ''/v2/updates/price/latest'')
                     (map (\<lambda>fid. (''ids[]'', fid)) feed_ids) (Some 30) = Inl e \<longrightarrow>
        isinstance e Timeout \<longrightarrow>
        get_latest_prices env feed_ids st =
          (Inl e,
           \<lparr>calls = calls st @ [HttpGet (base_url env @ ''/v2/updates/price/latest'')
                                       (map (\<lambda>fid. (''ids[]'', fid)) feed_ids) (Some 30)],
            logged = logged st @ [(ERROR, RequestTimedOut feed_ids)]\<rparr>))"
proof -
  have h: "calls (snd (latest_handler ids r e s)) = calls s" for ids r e s
    by (simp add: latest_handler_def logger_def split: option.splits)
  have "calls (snd (get_latest_prices env feed_ids st)) =
     calls st @ [HttpGet (base_url env @ ''/v2/updates/price/latest'')
                         (map (\<lambda>fid. (''ids[]'', fid)) feed_ids) (Some 30)]"
    by (simp add: get_latest_prices_def Let_def h do_call_def split: sum.splits)
  then show ?thesis
    by (simp add: get_latest_prices_def latest_handler_def logger_def do_call_def)
qed

theorem get_latest_prices_timeout_witness:
  "isinstance (Exn ReadTimeout ''Read timed out.'') Timeout \<and>
   get_latest_prices
     (demo_env\<lparr>session_get := \<lambda>u q t. Inl (Exn ReadTimeout ''Read timed out.'')\<rparr>)
     [JStr ''a1''] st0 =
     (Inl (Exn ReadTimeout ''Read timed out.''),
      \<lparr>calls = [HttpGet ''https://hermes.example/v2/updates/price/latest''
                        [(''ids[]'', JStr ''a1'')] (Some 30)],
       logged = [(ERROR, RequestTimedOut [JStr ''a1''])]\<rparr>)"
proof -
  have t: "isinstance (Exn ReadTimeout ''Read timed out.'') Timeout"
    by (simp add: isinstance_def)
  from get_latest_prices_timeout
    [of "demo_env\<lparr>session_get := \<lambda>u q t. Inl (Exn ReadTimeout ''Read timed out.'')\<rparr>"
        "[JStr ''a1'']" st0] t
  show ?thesis by (simp add: demo_env_def st0_def)
qed


section \<open>Failures are caught at the handler\<close>

lemma only_exceptions_Inr [simp]: "only_exceptions (Inr v)"
  by (simp add: only_exceptions_def)

lemma only_exceptions_Inl [simp]: "only_exceptions (Inl e) = isinstance e Exception"
  by (simp add: only_exceptions_def)






























section \<open>The classifier's reply\<close>





section \<open>Loading the catalog\<close>






section \<open>Display time\<close>















section \<open>A price without descriptor\<close>

lemma next_description_unmatched:
  "subscript price_item ''id'' = Inr i \<Longrightarrow> \<not> list_ex (\<lambda>f. py_eq (feed_id f) i) feeds \<Longrightarrow>
   next_description feeds price_item = Inl (Exn StopIteration [])"
  by (induction feeds) simp_all

lemma make_price_data_unmatched:
  assumes "unmatched feeds price_item"
  shows "\<exists>e. make_price_data env feeds price_item = Inl e"
    and "scaled env price_item ''price'' = Inr p \<Longrightarrow> scaled env price_item ''conf'' = Inr c \<Longrightarrow>
         make_price_data env feeds price_item = Inl (Exn StopIteration [])"
proof -
  from assms obtain i where i: "subscript price_item ''id'' = Inr i"
    and n: "\<not> list_ex (\<lambda>f. py_eq (feed_id f) i) feeds"
    by (auto simp: unmatched_def split: sum.splits)
  note s = next_description_unmatched [OF i n]
  show "\<exists>e. make_price_data env feeds price_item = Inl e"
    by (cases "scaled env price_item ''price''"; cases "scaled env price_item ''conf''")
      (simp_all add: make_price_data_def i s)
  show "make_price_data env feeds price_item = Inl (Exn StopIteration [])"
    if "scaled env price_item ''price'' = Inr p" "scaled env price_item ''conf'' = Inr c"
    using that by (simp add: make_price_data_def i s)
qed

lemma price_records_fail:
  "list_ex (unmatched feeds) raws \<Longrightarrow> \<exists>e. price_records env feeds raws = Inl e"
proof (induction raws)
  case Nil
  then show ?case by simp
next
  case (Cons p raws)
  show ?case
  proof (cases "make_price_data env feeds p")
    case (Inl e)
    then show ?thesis by simp
  next
    case (Inr r)
    with make_price_data_unmatched(1) [of feeds p env] have "\<not> unmatched feeds p" by auto
    with Cons.prems have "list_ex (unmatched feeds) raws" by simp
    from Cons.IH [OF this] Inr show ?thesis by auto
  qed
qed

lemma price_records_append:
  "price_records env feeds pre = Inr rs \<Longrightarrow> make_price_data env feeds p = Inl e \<Longrightarrow>
   price_records env feeds (pre @ p # post) = Inl e"
proof (induction pre arbitrary: rs)
  case Nil
  then show ?case by simp
next
  case (Cons q pre)
  then show ?case
    by (cases "make_price_data env feeds q"; cases "price_records env feeds pre") simp_all
qed

text \<open>
  Claim C3, as the code has it. When some raw price has an id that no descriptor carries,
  the whole list comprehension fails and no record is returned. The failure is the
  \<^verbatim>\<open>StopIteration\<close> of the lookup when the records of the prices before the unmatched
  one are built and its own price and confidence convert; the fields of a record are
  evaluated in order, so an earlier failure comes first.
\<close>

theorem normalize_unmatched_fails:
  assumes "subscript response_data ''parsed'' = Inr parsed"
    and "py_iter parsed = Inr raws"
    and "list_ex (unmatched feeds) raws"
  shows "(\<exists>e. normalize env response_data feeds = Inl e) \<and>
         (\<forall>pre p post rs x c.
            raws = pre @ p # post \<longrightarrow> unmatched feeds p \<longrightarrow>
            price_records env feeds pre = Inr rs \<longrightarrow>
            scaled env p ''price'' = Inr x \<longrightarrow> scaled env p ''conf'' = Inr c \<longrightarrow>
            normalize env response_data feeds = Inl (Exn StopIteration []))"
proof -
  have n: "normalize env response_data feeds = price_records env feeds raws"
    using assms(1,2) by (simp add: normalize_def)
  have "normalize env response_data feeds = Inl (Exn StopIteration [])"
    if "raws = pre @ p # post" "unmatched feeds p" "price_records env feeds pre = Inr rs"
      "scaled env p ''price'' = Inr x" "scaled env p ''conf'' = Inr c" for pre p post rs x c
    using price_records_append [OF that(3) make_price_data_unmatched(2) [OF that(2,4,5)]] that(1) n
    by simp
  with price_records_fail [OF assms(3), of env] n show ?thesis by metis
qed

text \<open>
  The first price is matched and gives its publish time in milliseconds, the second has
  no descriptor: the call fails with the \<^verbatim>\<open>ValueError\<close> of the first price's time, not
  with the lookup failure.
\<close>

theorem normalize_unmatched_counterexample:
  "list_ex (unmatched demo_feeds) [demo_price ''a1'' 1000000000000, demo_price ''zz'' 1700000000] \<and>
   normalize demo_env demo_response demo_feeds =
     Inl (Exn ValueError ''year 33658 is out of range'')"
  by (simp add: unmatched_def demo_response_def normalize_def make_price_data_def demo_price_def
      demo_feeds_def scaled_def py_float_def py_pow10_def demo_env_def demo_float_of_def
      demo_time_ms)

theorem normalize_unmatched_fails_witness:
  "list_ex (unmatched demo_feeds) [demo_price ''a1'' 1700000000, demo_price ''zz'' 1700000000] \<and>
   normalize demo_env demo_response' demo_feeds = Inl (Exn StopIteration [])"
proof -
  let ?raws = "[demo_price ''a1'' 1700000000, demo_price ''zz'' 1700000000]"
  have 1: "subscript demo_response' ''parsed'' = Inr (JList ?raws)"
    by (simp add: demo_response'_def)
  have 2: "py_iter (JList ?raws) = Inr ?raws"
    by simp
  have u: "unmatched demo_feeds (demo_price ''zz'' 1700000000)"
    by (simp add: unmatched_def demo_price_def demo_feeds_def)
  then have 3: "list_ex (unmatched demo_feeds) ?raws"
    by simp
  have 4: "?raws = [demo_price ''a1'' 1700000000] @ demo_price ''zz'' 1700000000 # []"
    by simp
  have 5: "price_records demo_env demo_feeds [demo_price ''a1'' 1700000000] =
      Inr [\<lparr>data_id = JStr ''a1'',
          price = Times (FloatOf (JStr ''12345'')) (Pow10 (FloatOf (JInt (- 2)))),
          confidence_interval = Times (FloatOf (JStr ''67'')) (Pow10 (FloatOf (JInt (- 2)))),
          description = JStr ''first'',
          time = ''November 14, 2023 05:13 PM EST''\<rparr>]"
    by (simp add: demo_record)
  have 6: "scaled demo_env (demo_price ''zz'' 1700000000) ''price'' =
      Inr (Times (FloatOf (JStr ''12345'')) (Pow10 (FloatOf (JInt (- 2)))))"
    "scaled demo_env (demo_price ''zz'' 1700000000) ''conf'' =
      Inr (Times (FloatOf (JStr ''67'')) (Pow10 (FloatOf (JInt (- 2)))))"
    by (simp_all add: scaled_def demo_price_def py_float_def py_pow10_def demo_env_def
        demo_float_of_def)
  from normalize_unmatched_fails [OF 1 2 3, of demo_env] 4 u 5 6
  have "normalize demo_env demo_response' demo_feeds = Inl (Exn StopIteration [])"
    by blast
  with 3 show ?thesis by simp
qed


end
